theory Spec2Isabelle
  imports Complex_Main "HOL-Library.AList"
begin

section \<open>Values\<close>

text \<open>
  The weather provider answers with JSON, which \<^verbatim>\<open>response.json()\<close> turns into Python
  values. A JSON number is modelled by the rational it denotes (Python's \<^verbatim>\<open>int\<close> and
  \<^verbatim>\<open>float\<close> are not told apart, arithmetic is exact: the binary rounding of
  \<^verbatim>\<open>sum\<close> and \<^verbatim>\<open>/\<close> on floats is not modelled). An object is its list of
  key/value pairs in insertion order, keys distinct, as a Python \<^verbatim>\<open>dict\<close> keeps
  them. Python's \<^verbatim>\<open>None\<close> is \<open>JNull\<close>.
\<close>

datatype json =
    JNull
  | JBool bool
  | JNum rat
  | JStr string
  | JArr "json list"
  | JObj "(string \<times> json) list"

text \<open>
  Exceptions are values. \<open>OutOfModel\<close> is not a Python exception: it marks a run that
  reads a value of a JSON type the provider never sends at that place and whose effect
  in Python shows only later (\<^verbatim>\<open>min\<close> of two strings succeeds, \<^verbatim>\<open>round\<close> of
  the result fails at the end). Such runs are left outside the model.
\<close>

datatype py_error =
    KeyError
  | IndexError
  | TypeError
  | AttributeError
  | ValueError
  | ZeroDivisionError
  | OutOfModel

definition bind_r :: "py_error + 'a \<Rightarrow> ('a \<Rightarrow> py_error + 'b) \<Rightarrow> py_error + 'b" where
  "bind_r m f = (case m of Inl e \<Rightarrow> Inl e | Inr x \<Rightarrow> f x)"

text \<open>\<^verbatim>\<open>d[k]\<close> for a string key \<open>k\<close>.\<close>

fun getitem :: "json \<Rightarrow> string \<Rightarrow> py_error + json" where
  "getitem (JObj kvs) k = (case map_of kvs k of None \<Rightarrow> Inl KeyError | Some v \<Rightarrow> Inr v)"
| "getitem _ k = Inl TypeError"

text \<open>\<^verbatim>\<open>v[0]\<close>. The keys of a parsed JSON object are strings, so \<open>0\<close> is never one.\<close>

fun getitem0 :: "json \<Rightarrow> py_error + json" where
  "getitem0 (JArr []) = Inl IndexError"
| "getitem0 (JArr (x # xs)) = Inr x"
| "getitem0 (JObj kvs) = Inl KeyError"
| "getitem0 (JStr []) = Inl IndexError"
| "getitem0 (JStr (c # cs)) = Inr (JStr [c])"
| "getitem0 _ = Inl TypeError"

text \<open>\<^verbatim>\<open>d.get(k, default)\<close>: only a dict has the method.\<close>

fun dict_get :: "json \<Rightarrow> string \<Rightarrow> json \<Rightarrow> py_error + json" where
  "dict_get (JObj kvs) k dflt = (case map_of kvs k of None \<Rightarrow> Inr dflt | Some v \<Rightarrow> Inr v)"
| "dict_get _ k dflt = Inl AttributeError"

text \<open>Truth value of a Python object, as \<^verbatim>\<open>if data:\<close> tests it.\<close>

fun truthy :: "json \<Rightarrow> bool" where
  "truthy JNull = False"
| "truthy (JBool b) = b"
| "truthy (JNum r) = (r \<noteq> 0)"
| "truthy (JStr s) = (s \<noteq> [])"
| "truthy (JArr xs) = (xs \<noteq> [])"
| "truthy (JObj kvs) = (kvs \<noteq> [])"

text \<open>A number where an operation needs one at once (\<^verbatim>\<open>bool\<close> is a subclass of \<^verbatim>\<open>int\<close>).\<close>

fun as_num :: "py_error \<Rightarrow> json \<Rightarrow> py_error + rat" where
  "as_num e (JNum r) = Inr r"
| "as_num e (JBool b) = Inr (if b then 1 else 0)"
| "as_num e _ = Inl e"

fun as_str :: "py_error \<Rightarrow> json \<Rightarrow> py_error + string" where
  "as_str e (JStr s) = Inr s"
| "as_str e _ = Inl e"

text \<open>
  \<^verbatim>\<open>round(x)\<close> with one argument: the nearest integer, a tie going to the even one.
\<close>

definition py_round :: "rat \<Rightarrow> int" where
  "py_round x =
     (let f = \<lfloor>x\<rfloor>; d = x - of_int f
      in if d < 1 / 2 then f
         else if 1 / 2 < d then f + 1
         else if even f then f else f + 1)"

text \<open>\<^verbatim>\<open>round(x, 1)\<close>: one decimal place, ties to even.\<close>

definition py_round1 :: "rat \<Rightarrow> rat" where
  "py_round1 x = of_int (py_round (x * 10)) / 10"

text \<open>
  \<^verbatim>\<open>str.title()\<close>: a cased character after an uncased one (or at the start) is
  upper-cased, every other cased character lower-cased. Only the ASCII letters are
  treated as cased; Python also cases letters beyond ASCII, whose tables are not modelled.
\<close>

definition is_lower :: "char \<Rightarrow> bool" where
  "is_lower c = (of_char CHR ''a'' \<le> (of_char c :: nat) \<and> (of_char c :: nat) \<le> of_char CHR ''z'')"

definition is_upper :: "char \<Rightarrow> bool" where
  "is_upper c = (of_char CHR ''A'' \<le> (of_char c :: nat) \<and> (of_char c :: nat) \<le> of_char CHR ''Z'')"

definition is_cased :: "char \<Rightarrow> bool" where
  "is_cased c = (is_lower c \<or> is_upper c)"

definition to_upper :: "char \<Rightarrow> char" where
  "to_upper c = (if is_lower c then char_of (of_char c - (32::nat)) else c)"

definition to_lower :: "char \<Rightarrow> char" where
  "to_lower c = (if is_upper c then char_of (of_char c + (32::nat)) else c)"

fun title_from :: "bool \<Rightarrow> string \<Rightarrow> string" where
  "title_from prev [] = []"
| "title_from prev (c # cs) =
     (if prev then to_lower c else to_upper c) # title_from (is_cased c) cs"

definition title :: "string \<Rightarrow> string" where
  "title s = title_from False s"

section \<open>Configuration (config.py)\<close>

record config =
  weather_api_key :: string
  current_weather_url :: string
  forecast_url :: string
  request_timeout :: int
  max_retries :: int
  default_language :: string
  default_units :: string

text \<open>The values \<^verbatim>\<open>Config.__init__\<close> sets; the key comes from the environment.\<close>

definition default_config :: "string \<Rightarrow> config" where
  "default_config key =
     \<lparr> weather_api_key = key,
       current_weather_url = ''https://api.openweathermap.org/data/2.5/weather'',
       forecast_url = ''https://api.openweathermap.org/data/2.5/forecast'',
       request_timeout = 10,
       max_retries = 3,
       default_language = ''ru'',
       default_units = ''metric'' \<rparr>"

definition get_weather_params :: "config \<Rightarrow> string \<Rightarrow> bool \<Rightarrow> (string \<times> json) list" where
  "get_weather_params cfg city forecast =
     (let params = [(''q'', JStr city),
                    (''appid'', JStr (weather_api_key cfg)),
                    (''lang'', JStr (default_language cfg)),
                    (''units'', JStr (default_units cfg))]
      in if forecast then params @ [(''cnt'', JNum 40)] else params)"

section \<open>The request with retries (WeatherService._make_request)\<close>

text \<open>
  What one \<^verbatim>\<open>session.get\<close> does: an HTTP response with its status and, when the
  body parses as JSON, the parsed body (\<open>None\<close> when \<^verbatim>\<open>response.json()\<close> raises), or
  one of the exceptions the loop catches.
\<close>

datatype response =
    Http int "json option"
  | TimeoutError
  | ClientError
  | OtherException

text \<open>
  The transport is the environment: it answers the \<open>n\<close>-th GET of a request (counted
  from 0) for a URL and its parameters. What the client does to the outside is recorded
  as a list of events, in order.
\<close>

type_synonym transport = "string \<Rightarrow> (string \<times> json) list \<Rightarrow> nat \<Rightarrow> response"

datatype event = Get nat | Sleep nat

text \<open>
  The body of the \<^verbatim>\<open>try\<close>: \<open>Some v\<close> when it returns \<open>v\<close> from the function, \<open>None\<close>
  when control falls through to the pause below it (the status is neither 200 nor 404, or
  an exception was caught and logged).
\<close>

fun try_attempt :: "response \<Rightarrow> json option" where
  "try_attempt (Http status body) =
     (if status = 200 then body
      else if status = 404 then Some JNull
      else None)"
| "try_attempt TimeoutError = None"
| "try_attempt ClientError = None"
| "try_attempt OtherException = None"

text \<open>The \<^verbatim>\<open>for attempt in range(max_retries)\<close> loop, over the attempts still to make.\<close>

fun attempts :: "(nat \<Rightarrow> response) \<Rightarrow> int \<Rightarrow> nat list \<Rightarrow> json \<times> event list" where
  "attempts get retries [] = (JNull, [])"
| "attempts get retries (attempt # rest) =
     (case try_attempt (get attempt) of
        Some v \<Rightarrow> (v, [Get attempt])
      | None \<Rightarrow>
          (let pause = (if int attempt < retries - 1 then [Sleep 1] else []);
               (v, evs) = attempts get retries rest
           in (v, Get attempt # pause @ evs)))"

definition make_request :: "config \<Rightarrow> transport \<Rightarrow> string \<Rightarrow> (string \<times> json) list \<Rightarrow> json \<times> event list" where
  "make_request cfg tr url params = attempts (tr url params) (max_retries cfg) [0 ..< nat (max_retries cfg)]"

section \<open>Formatting the current weather (WeatherService._format_current_weather)\<close>

text \<open>
  A function that returns a \<^verbatim>\<open>Dict\<close> returns either \<^verbatim>\<open>{}\<close> or a dict with all of
  its keys; the latter is a record.
\<close>

datatype 'a py_dict = EmptyDict | Dict 'a

text \<open>\<^verbatim>\<open>try: ... except KeyError: return {}\<close>; every other exception propagates.\<close>

definition except_KeyError :: "py_error + 'a \<Rightarrow> py_error + 'a py_dict" where
  "except_KeyError m =
     (case m of
        Inl e \<Rightarrow> (if e = KeyError then Inr EmptyDict else Inl e)
      | Inr r \<Rightarrow> Inr (Dict r))"

text \<open>
  \<^verbatim>\<open>datetime.fromtimestamp(x)\<close> needs a number. The \<^verbatim>\<open>datetime\<close> it returns is
  determined by the timestamp and is represented by it; the platform's range of valid
  timestamps is not modelled.
\<close>

definition fromtimestamp :: "json \<Rightarrow> py_error + rat" where
  "fromtimestamp x = as_num TypeError x"

text \<open>\<^verbatim>\<open>x // 1000\<close>\<close>

definition floordiv_1000 :: "json \<Rightarrow> py_error + int" where
  "floordiv_1000 x = bind_r (as_num TypeError x) (\<lambda>r. Inr \<lfloor>r / 1000\<rfloor>)"

record current_weather =
  cw_city :: json
  cw_country :: json
  cw_temperature :: int
  cw_feels_like :: int
  cw_description :: string
  cw_icon :: json
  cw_humidity :: json
  cw_pressure :: json
  cw_wind_speed :: json
  cw_wind_direction :: json
  cw_cloudiness :: json
  cw_visibility :: int
  cw_sunrise :: rat
  cw_sunset :: rat
  cw_timezone :: json

text \<open>The body of the \<^verbatim>\<open>try\<close>, in the order Python evaluates it.\<close>

definition current_weather_body :: "json \<Rightarrow> py_error + current_weather" where
  "current_weather_body data =
     bind_r (getitem data ''main'') (\<lambda>main.
     bind_r (bind_r (getitem data ''weather'') getitem0) (\<lambda>weather.
     bind_r (dict_get data ''wind'' (JObj [])) (\<lambda>wind.
     bind_r (dict_get data ''clouds'' (JObj [])) (\<lambda>clouds.
     bind_r (getitem data ''name'') (\<lambda>city.
     bind_r (bind_r (getitem data ''sys'') (\<lambda>sys. getitem sys ''country'')) (\<lambda>country.
     bind_r (bind_r (getitem main ''temp'') (as_num TypeError)) (\<lambda>temp.
     bind_r (bind_r (getitem main ''feels_like'') (as_num TypeError)) (\<lambda>feels_like.
     bind_r (bind_r (getitem weather ''description'') (as_str AttributeError)) (\<lambda>description.
     bind_r (getitem weather ''icon'') (\<lambda>icon.
     bind_r (getitem main ''humidity'') (\<lambda>humidity.
     bind_r (getitem main ''pressure'') (\<lambda>pressure.
     bind_r (dict_get wind ''speed'' (JNum 0)) (\<lambda>wind_speed.
     bind_r (dict_get wind ''deg'' (JNum 0)) (\<lambda>wind_direction.
     bind_r (dict_get clouds ''all'' (JNum 0)) (\<lambda>cloudiness.
     bind_r (bind_r (dict_get data ''visibility'' (JNum 0)) floordiv_1000) (\<lambda>visibility.
     bind_r (bind_r (bind_r (getitem data ''sys'') (\<lambda>sys. getitem sys ''sunrise'')) fromtimestamp) (\<lambda>sunrise.
     bind_r (bind_r (bind_r (getitem data ''sys'') (\<lambda>sys. getitem sys ''sunset'')) fromtimestamp) (\<lambda>sunset.
     bind_r (getitem data ''timezone'') (\<lambda>timezone.
     Inr \<lparr> cw_city = city,
           cw_country = country,
           cw_temperature = py_round temp,
           cw_feels_like = py_round feels_like,
           cw_description = title description,
           cw_icon = icon,
           cw_humidity = humidity,
           cw_pressure = pressure,
           cw_wind_speed = wind_speed,
           cw_wind_direction = wind_direction,
           cw_cloudiness = cloudiness,
           cw_visibility = visibility,
           cw_sunrise = sunrise,
           cw_sunset = sunset,
           cw_timezone = timezone \<rparr>)))))))))))))))))))"

definition format_current_weather :: "json \<Rightarrow> py_error + current_weather py_dict" where
  "format_current_weather data = except_KeyError (current_weather_body data)"

section \<open>Aggregating the forecast (WeatherService._format_forecast_data)\<close>

text \<open>
  The per-day dict. While the samples are read it has the first eight keys; the second
  loop rounds \<open>temp_min\<close> and \<open>temp_max\<close> in place and adds the last three keys.
\<close>

record day_forecast =
  date :: rat
  temp_min :: rat
  temp_max :: rat
  descriptions :: "string list"
  humidity :: "rat list"
  wind_speeds :: "rat list"
  main_weather :: json
  icon :: json

record daily_forecast = day_forecast +
  avg_humidity :: int
  avg_wind_speed :: rat
  description :: string

record forecast_result =
  fr_city :: json
  fr_country :: json
  forecasts :: "daily_forecast list"

text \<open>
  The readings of a sample. Temperature, humidity and wind speed are used as numbers
  and the description as a string only after they were read, so a value of another type
  leaves the model here.
\<close>

definition item_temp :: "json \<Rightarrow> py_error + rat" where
  "item_temp item =
     bind_r (bind_r (getitem item ''main'') (\<lambda>m. getitem m ''temp'')) (as_num OutOfModel)"

definition item_humidity :: "json \<Rightarrow> py_error + rat" where
  "item_humidity item =
     bind_r (bind_r (getitem item ''main'') (\<lambda>m. getitem m ''humidity'')) (as_num OutOfModel)"

definition item_wind_speed :: "json \<Rightarrow> py_error + rat" where
  "item_wind_speed item =
     bind_r (bind_r (getitem item ''wind'') (\<lambda>w. getitem w ''speed'')) (as_num OutOfModel)"

definition item_weather :: "json \<Rightarrow> string \<Rightarrow> py_error + json" where
  "item_weather item k =
     bind_r (bind_r (getitem item ''weather'') getitem0) (\<lambda>w. getitem w k)"

definition item_description :: "json \<Rightarrow> py_error + string" where
  "item_description item = bind_r (item_weather item ''description'') (as_str OutOfModel)"

text \<open>
  One turn of the first loop. \<open>day_key\<close> stands for
  \<^verbatim>\<open>datetime.fromtimestamp(t).strftime('%Y-%m-%d')\<close>, the calendar date of the instant
  \<open>t\<close> in the time zone of the machine; it is a parameter. \<open>daily\<close> is the dict
  \<^verbatim>\<open>daily_forecasts\<close>, its keys in insertion order.
\<close>

definition add_item ::
  "(rat \<Rightarrow> 'k) \<Rightarrow> ('k \<times> day_forecast) list \<Rightarrow> json \<Rightarrow> py_error + ('k \<times> day_forecast) list" where
  "add_item day_key daily item =
     bind_r (bind_r (getitem item ''dt'') fromtimestamp) (\<lambda>date_obj.
     let date_key = day_key date_obj in
     bind_r
       (if map_of daily date_key = None
        then
          bind_r (item_temp item) (\<lambda>temp.
          bind_r (item_weather item ''main'') (\<lambda>main.
          bind_r (item_weather item ''icon'') (\<lambda>icon.
          Inr (daily @ [(date_key,
                 \<lparr> date = date_obj,
                   temp_min = temp,
                   temp_max = temp,
                   descriptions = [],
                   humidity = [],
                   wind_speeds = [],
                   main_weather = main,
                   icon = icon \<rparr>)]))))
        else Inr daily) (\<lambda>daily.
     case map_of daily date_key of
       None \<Rightarrow> Inl KeyError
     | Some forecast \<Rightarrow>
         bind_r (item_temp item) (\<lambda>temp.
         bind_r (item_description item) (\<lambda>description.
         bind_r (item_humidity item) (\<lambda>humidity1.
         bind_r (item_wind_speed item) (\<lambda>wind_speed.
         Inr (AList.update date_key
                (forecast
                   \<lparr> temp_min := min (temp_min forecast) temp,
                     temp_max := max (temp_max forecast) temp,
                     descriptions := descriptions forecast @ [description],
                     humidity := humidity forecast @ [humidity1],
                     wind_speeds := wind_speeds forecast @ [wind_speed] \<rparr>)
                daily)))))))"

fun add_items ::
  "(rat \<Rightarrow> 'k) \<Rightarrow> ('k \<times> day_forecast) list \<Rightarrow> json list \<Rightarrow> py_error + ('k \<times> day_forecast) list" where
  "add_items day_key daily [] = Inr daily"
| "add_items day_key daily (item # items) =
     bind_r (add_item day_key daily item) (\<lambda>daily. add_items day_key daily items)"

text \<open>What \<^verbatim>\<open>for item in forecast_list\<close> iterates over.\<close>

fun py_iter :: "json \<Rightarrow> py_error + json list" where
  "py_iter (JArr xs) = Inr xs"
| "py_iter (JObj kvs) = Inr (map (\<lambda>kv. JStr (fst kv)) kvs)"
| "py_iter (JStr s) = Inr (map (\<lambda>c. JStr [c]) s)"
| "py_iter _ = Inl TypeError"

text \<open>\<^verbatim>\<open>sum(xs) / len(xs)\<close>\<close>

definition py_mean :: "rat list \<Rightarrow> py_error + rat" where
  "py_mean xs = (if length xs = 0 then Inl ZeroDivisionError else Inr (sum_list xs / of_nat (length xs)))"

text \<open>
  The counting loop: \<^verbatim>\<open>description_counts[desc] = description_counts.get(desc, 0) + 1\<close>.
  A new key goes to the end of the dict, a known key keeps its place.
\<close>

fun count_descriptions :: "(string \<times> int) list \<Rightarrow> string list \<Rightarrow> (string \<times> int) list" where
  "count_descriptions counts [] = counts"
| "count_descriptions counts (desc # descs) =
     count_descriptions
       (AList.update desc ((case map_of counts desc of None \<Rightarrow> 0 | Some c \<Rightarrow> c) + 1) counts)
       descs"

text \<open>
  \<^verbatim>\<open>max(iterable, key=...)\<close>: the running maximum is replaced only by an element
  with a strictly larger key, so the first of several maximal elements is returned; an
  empty iterable raises \<^verbatim>\<open>ValueError\<close>.
\<close>

fun max_from :: "('a \<Rightarrow> int) \<Rightarrow> 'a \<Rightarrow> 'a list \<Rightarrow> 'a" where
  "max_from key best [] = best"
| "max_from key best (x # xs) = max_from key (if key best < key x then x else best) xs"

definition py_max :: "('a \<Rightarrow> int) \<Rightarrow> 'a list \<Rightarrow> py_error + 'a" where
  "py_max key xs = (case xs of [] \<Rightarrow> Inl ValueError | x # rest \<Rightarrow> Inr (max_from key x rest))"

text \<open>Lines 175 to 178: the description of a day.\<close>

definition most_frequent :: "string list \<Rightarrow> py_error + string" where
  "most_frequent descs =
     bind_r (py_max snd (count_descriptions [] descs)) (\<lambda>best. Inr (title (fst best)))"

text \<open>One turn of the second loop.\<close>

definition finalize :: "day_forecast \<Rightarrow> py_error + daily_forecast" where
  "finalize forecast =
     bind_r (py_mean (humidity forecast)) (\<lambda>mean_humidity.
     bind_r (py_mean (wind_speeds forecast)) (\<lambda>mean_wind_speed.
     bind_r (most_frequent (descriptions forecast)) (\<lambda>desc.
     Inr \<lparr> date = date forecast,
           temp_min = of_int (py_round (temp_min forecast)),
           temp_max = of_int (py_round (temp_max forecast)),
           descriptions = descriptions forecast,
           humidity = humidity forecast,
           wind_speeds = wind_speeds forecast,
           main_weather = main_weather forecast,
           icon = icon forecast,
           avg_humidity = py_round mean_humidity,
           avg_wind_speed = py_round1 mean_wind_speed,
           description = desc \<rparr>)))"

fun finalize_all :: "('k \<times> day_forecast) list \<Rightarrow> py_error + ('k \<times> daily_forecast) list" where
  "finalize_all [] = Inr []"
| "finalize_all ((date_key, forecast) # rest) =
     bind_r (finalize forecast) (\<lambda>forecast'.
     bind_r (finalize_all rest) (\<lambda>rest'.
     Inr ((date_key, forecast') # rest')))"

definition forecast_body :: "(rat \<Rightarrow> 'k) \<Rightarrow> json \<Rightarrow> py_error + forecast_result" where
  "forecast_body day_key data =
     bind_r (getitem data ''city'') (\<lambda>city_info.
     bind_r (getitem data ''list'') (\<lambda>forecast_list.
     bind_r (py_iter forecast_list) (\<lambda>items.
     bind_r (add_items day_key [] items) (\<lambda>daily.
     bind_r (finalize_all daily) (\<lambda>daily.
     bind_r (getitem city_info ''name'') (\<lambda>name.
     bind_r (getitem city_info ''country'') (\<lambda>country.
     Inr \<lparr> fr_city = name,
           fr_country = country,
           forecasts = take 5 (map snd daily) \<rparr>)))))))"

definition format_forecast_data :: "(rat \<Rightarrow> 'k) \<Rightarrow> json \<Rightarrow> py_error + forecast_result py_dict" where
  "format_forecast_data day_key data = except_KeyError (forecast_body day_key data)"

section \<open>The two queries (get_current_weather, get_forecast)\<close>

text \<open>
  Each returns what the caller receives (\<open>None\<close> for Python's \<^verbatim>\<open>None\<close>, or an
  exception the formatter let through) together with the events of the request.
\<close>

definition get_current_weather ::
  "config \<Rightarrow> transport \<Rightarrow> string \<Rightarrow> (py_error + current_weather py_dict option) \<times> event list" where
  "get_current_weather cfg tr city =
     (let params = get_weather_params cfg city False;
          (data, evs) = make_request cfg tr (current_weather_url cfg) params
      in (if truthy data
          then bind_r (format_current_weather data) (\<lambda>r. Inr (Some r))
          else Inr None, evs))"

definition get_forecast ::
  "config \<Rightarrow> transport \<Rightarrow> (rat \<Rightarrow> 'k) \<Rightarrow> string \<Rightarrow> (py_error + forecast_result py_dict option) \<times> event list" where
  "get_forecast cfg tr day_key city =
     (let params = get_weather_params cfg city True;
          (data, evs) = make_request cfg tr (forecast_url cfg) params
      in (if truthy data
          then bind_r (format_forecast_data day_key data) (\<lambda>r. Inr (Some r))
          else Inr None, evs))"

section \<open>Notions used in the statements\<close>

text \<open>
  An answer after which the client tries again, as the specification lists them: a
  status other than 200 and 404, a timeout, a connection failure.
\<close>

fun transient :: "response \<Rightarrow> bool" where
  "transient (Http status body) = (status \<noteq> 200 \<and> status \<noteq> 404)"
| "transient TimeoutError = True"
| "transient ClientError = True"
| "transient OtherException = False"

text \<open>\<open>n\<close> attempts with a pause of one second after each but the last.\<close>

definition exhausted_events :: "nat \<Rightarrow> event list" where
  "exhausted_events n =
     (if n = 0 then [] else concat (map (\<lambda>i. [Get i, Sleep 1]) [0 ..< n - 1]) @ [Get (n - 1)])"

text \<open>The attempts among the events.\<close>

fun is_get :: "event \<Rightarrow> bool" where
  "is_get (Get i) = True"
| "is_get (Sleep s) = False"

subsection \<open>Well-formed forecast payloads\<close>

text \<open>
  A sample seen as the readings the first loop takes from it. \<open>read_sample\<close> succeeds on
  an item exactly when every reading the loop may make of it succeeds (the loop reads
  \<open>main\<close> and \<open>icon\<close> only from the first sample of a day); the statements about
  groups of samples are made for payloads whose items it reads.
\<close>

record sample =
  s_dt :: rat
  s_temp :: rat
  s_humidity :: rat
  s_wind_speed :: rat
  s_description :: string
  s_main :: json
  s_icon :: json

definition read_sample :: "json \<Rightarrow> py_error + sample" where
  "read_sample item =
     bind_r (bind_r (getitem item ''dt'') fromtimestamp) (\<lambda>dt.
     bind_r (item_temp item) (\<lambda>temp.
     bind_r (item_weather item ''main'') (\<lambda>main.
     bind_r (item_weather item ''icon'') (\<lambda>icon.
     bind_r (item_description item) (\<lambda>description.
     bind_r (item_humidity item) (\<lambda>humidity1.
     bind_r (item_wind_speed item) (\<lambda>wind_speed.
     Inr \<lparr> s_dt = dt, s_temp = temp, s_humidity = humidity1, s_wind_speed = wind_speed,
           s_description = description, s_main = main, s_icon = icon \<rparr>)))))))"

text \<open>The distinct elements of a list in the order of their first occurrence.\<close>

fun first_seen :: "'a list \<Rightarrow> 'a list" where
  "first_seen [] = []"
| "first_seen (x # xs) = x # filter (\<lambda>y. y \<noteq> x) (first_seen xs)"

text \<open>
  Closed forms, used in the proofs only: the dict of one day after the first loop has read
  the samples \<open>g\<close> of that day, the whole of \<^verbatim>\<open>daily_forecasts\<close> after the first loop,
  and the dict of one day after the second loop.
\<close>

definition day_group :: "sample list \<Rightarrow> day_forecast" where
  "day_group g =
     \<lparr> date = s_dt (hd g),
       temp_min = Min (set (map s_temp g)),
       temp_max = Max (set (map s_temp g)),
       descriptions = map s_description g,
       humidity = map s_humidity g,
       wind_speeds = map s_wind_speed g,
       main_weather = s_main (hd g),
       icon = s_icon (hd g) \<rparr>"

definition grouped :: "(rat \<Rightarrow> 'k) \<Rightarrow> sample list \<Rightarrow> ('k \<times> day_forecast) list" where
  "grouped day_key ss =
     map (\<lambda>k. (k, day_group (filter (\<lambda>s. day_key (s_dt s) = k) ss)))
       (first_seen (map (\<lambda>s. day_key (s_dt s)) ss))"

definition summary :: "sample list \<Rightarrow> daily_forecast" where
  "summary g =
     \<lparr> date = s_dt (hd g),
       temp_min = of_int (py_round (Min (set (map s_temp g)))),
       temp_max = of_int (py_round (Max (set (map s_temp g)))),
       descriptions = map s_description g,
       humidity = map s_humidity g,
       wind_speeds = map s_wind_speed g,
       main_weather = s_main (hd g),
       icon = s_icon (hd g),
       avg_humidity = py_round (sum_list (map s_humidity g) / of_nat (length g)),
       avg_wind_speed = py_round1 (sum_list (map s_wind_speed g) / of_nat (length g)),
       description = (case most_frequent (map s_description g) of Inr d \<Rightarrow> d | Inl e \<Rightarrow> []) \<rparr>"

text \<open>
  A payload with \<^verbatim>\<open>data['city']['name']\<close>, \<^verbatim>\<open>data['city']['country']\<close> and a list of
  items under \<^verbatim>\<open>data['list']\<close>.
\<close>

definition forecast_payload :: "json \<Rightarrow> json \<Rightarrow> json \<Rightarrow> json list \<Rightarrow> bool" where
  "forecast_payload data name country items =
     (bind_r (getitem data ''city'') (\<lambda>city_info. getitem city_info ''name'') = Inr name
      \<and> bind_r (getitem data ''city'') (\<lambda>city_info. getitem city_info ''country'') = Inr country
      \<and> getitem data ''list'' = Inr (JArr items))"

subsection \<open>A worked example\<close>

text \<open>
  Four samples on two days, with the calendar date taken in UTC and written as the number
  of the day. The first day has the temperatures 10, 14.5 and 12 and the descriptions
  broken clouds, broken clouds, clear sky.
\<close>

definition utc_day :: "rat \<Rightarrow> int" where
  "utc_day t = \<lfloor>t / 86400\<rfloor>"

definition example_item :: "rat \<Rightarrow> rat \<Rightarrow> rat \<Rightarrow> rat \<Rightarrow> string \<Rightarrow> string \<Rightarrow> json" where
  "example_item dt temp hum wind desc ic =
     JObj [(''dt'', JNum dt),
           (''main'', JObj [(''temp'', JNum temp), (''humidity'', JNum hum)]),
           (''weather'', JArr [JObj [(''main'', JStr ''Clouds''), (''description'', JStr desc), (''icon'', JStr ic)]]),
           (''wind'', JObj [(''speed'', JNum wind)])]"

definition example_items :: "json list" where
  "example_items =
     [example_item 0 10 50 (3 / 2) ''broken clouds'' ''04d'',
      example_item 10800 (29 / 2) 60 (5 / 2) ''broken clouds'' ''04n'',
      example_item 21600 12 61 2 ''clear sky'' ''01d'',
      example_item 86400 5 70 1 ''light rain'' ''10d'']"

definition example_payload :: "json list \<Rightarrow> json" where
  "example_payload items =
     JObj [(''city'', JObj [(''name'', JStr ''Oslo''), (''country'', JStr ''NO'')]),
           (''list'', JArr items)]"



definition example_day0 :: daily_forecast where
  "example_day0 =
     \<lparr> date = 0, temp_min = 10, temp_max = 14,
       descriptions = [''broken clouds'', ''broken clouds'', ''clear sky''],
       humidity = [50, 60, 61], wind_speeds = [3 / 2, 5 / 2, 2],
       main_weather = JStr ''Clouds'', icon = JStr ''04d'',
       avg_humidity = 57, avg_wind_speed = 2, description = ''Broken Clouds'' \<rparr>"

definition example_day1 :: daily_forecast where
  "example_day1 =
     \<lparr> date = 86400, temp_min = 5, temp_max = 5,
       descriptions = [''light rain''], humidity = [70], wind_speeds = [1],
       main_weather = JStr ''Clouds'', icon = JStr ''10d'',
       avg_humidity = 70, avg_wind_speed = 1, description = ''Light Rain'' \<rparr>"

definition example_result :: forecast_result where
  "example_result = \<lparr> fr_city = JStr ''Oslo'', fr_country = JStr ''NO'', forecasts = [example_day0, example_day1] \<rparr>"

subsection \<open>Fields of a current-weather body\<close>















section \<open>The retry loop\<close>

lemma transient_falls_through: "transient r \<Longrightarrow> try_attempt r = None"
  by (cases r) auto

lemma attempts_all_transient:
  "\<forall>i \<in> set xs. transient (get i) \<Longrightarrow>
   attempts get r xs =
     (JNull, concat (map (\<lambda>i. Get i # (if int i < r - 1 then [Sleep 1] else [])) xs))"
  by (induction xs) (simp_all add: transient_falls_through)

lemma pauses_upto:
  "concat (map (\<lambda>i. Get i # (if int i < int n - 1 then [Sleep 1] else [])) [0 ..< n])
   = exhausted_events n"
proof (cases n)
  case 0
  then show ?thesis by (simp add: exhausted_events_def)
next
  case (Suc m)
  let ?F = "\<lambda>i. Get i # (if int i < int (Suc m) - 1 then [Sleep 1] else [])"
  have A: "map ?F [0 ..< m] = map (\<lambda>i. [Get i, Sleep 1]) [0 ..< m]"
    by (rule map_cong) simp_all
  have B: "exhausted_events (Suc m) = concat (map (\<lambda>i. [Get i, Sleep 1]) [0 ..< m]) @ [Get m]"
    by (simp add: exhausted_events_def)
  have "concat (map ?F [0 ..< Suc m]) = concat (map ?F [0 ..< m]) @ ?F m"
    by simp
  also have "?F m = [Get m]"
    by simp
  finally show ?thesis
    unfolding Suc A B .
qed

lemma gets_of_pairs: "filter is_get (concat (map (\<lambda>i. [Get i, Sleep s]) xs)) = map Get xs"
  by (induction xs) simp_all

lemma gets_of_exhausted_events: "filter is_get (exhausted_events n) = map Get [0 ..< n]"
proof (cases n)
  case 0
  then show ?thesis by (simp add: exhausted_events_def)
next
  case (Suc m)
  then show ?thesis by (simp add: exhausted_events_def gets_of_pairs)
qed

lemma make_request_transient:
  assumes "\<forall>i < nat (max_retries cfg). transient (tr url params i)"
  shows "make_request cfg tr url params = (JNull, exhausted_events (nat (max_retries cfg)))"
proof (cases "0 \<le> max_retries cfg")
  case True
  then obtain n where n: "max_retries cfg = int n"
    using nonneg_int_cases by blast
  have "attempts (tr url params) (int n) [0 ..< n] = (JNull, exhausted_events n)"
    using assms n by (simp add: attempts_all_transient pauses_upto)
  then show ?thesis using n by (simp add: make_request_def)
next
  case False
  then show ?thesis by (simp add: make_request_def exhausted_events_def)
qed

lemma make_request_404:
  assumes "0 < max_retries cfg" and "tr url params 0 = Http 404 b"
  shows "make_request cfg tr url params = (JNull, [Get 0])"
proof -
  have "[0 ..< nat (max_retries cfg)] = 0 # [1 ..< nat (max_retries cfg)]"
    using assms(1) by (simp add: upt_rec)
  then show ?thesis using assms(2) by (simp add: make_request_def)
qed

lemma get_current_weather_JNull:
  "make_request cfg tr (current_weather_url cfg) (get_weather_params cfg city False) = (JNull, evs)
   \<Longrightarrow> get_current_weather cfg tr city = (Inr None, evs)"
  by (simp add: get_current_weather_def)

lemma get_forecast_JNull:
  "make_request cfg tr (forecast_url cfg) (get_weather_params cfg city True) = (JNull, evs)
   \<Longrightarrow> get_forecast cfg tr day_key city = (Inr None, evs)"
  by (simp add: get_forecast_def)

lemma exhausted_events_3: "exhausted_events 3 = [Get 0, Sleep 1, Get 1, Sleep 1, Get 2]"
  by (simp add: exhausted_events_def upt_rec)

text \<open>
  C1. When every attempt ends in a status other than 200 and 404, a timeout or a
  connection failure, \<^verbatim>\<open>_make_request\<close> makes exactly \<open>max_retries\<close> attempts, sleeps one
  second after each attempt but the last, and returns \<^verbatim>\<open>None\<close>. With the default
  configuration the events are: attempt, 1 s, attempt, 1 s, attempt.
\<close>

theorem make_request_exhausts_retries:
  assumes "\<forall>i < nat (max_retries cfg). transient (tr url params i)"
  shows "make_request cfg tr url params = (JNull, exhausted_events (nat (max_retries cfg)))
         \<and> filter is_get (snd (make_request cfg tr url params)) = map Get [0 ..< nat (max_retries cfg)]
         \<and> (max_retries cfg = 3 \<longrightarrow>
              snd (make_request cfg tr url params) = [Get 0, Sleep 1, Get 1, Sleep 1, Get 2])"
  using assms make_request_transient [of cfg tr url params]
  by (simp add: gets_of_exhausted_events exhausted_events_3)

theorem make_request_exhausts_retries_witness:
  "transient TimeoutError
   \<and> max_retries (default_config ''key'') = 3
   \<and> make_request (default_config ''key'') (\<lambda>url params i. TimeoutError) ''u'' []
       = (JNull, [Get 0, Sleep 1, Get 1, Sleep 1, Get 2])"
  using make_request_exhausts_retries [of "default_config ''key''" "\<lambda>url params i. TimeoutError" "''u''" "[]"]
  by (simp add: default_config_def exhausted_events_3)

text \<open>
  C2. When the first attempt is answered with status 404, \<^verbatim>\<open>get_current_weather\<close> and
  \<^verbatim>\<open>get_forecast\<close> return \<^verbatim>\<open>None\<close> after that one attempt: no second attempt and no
  pause. (A first attempt is made when \<open>max_retries\<close> is positive.)
\<close>

theorem not_found_is_not_retried:
  assumes "0 < max_retries cfg"
  shows "(tr (current_weather_url cfg) (get_weather_params cfg city False) 0 = Http 404 b
            \<longrightarrow> get_current_weather cfg tr city = (Inr None, [Get 0]))
         \<and> (tr (forecast_url cfg) (get_weather_params cfg city True) 0 = Http 404 b
            \<longrightarrow> get_forecast cfg tr day_key city = (Inr None, [Get 0]))"
  using assms by (auto intro!: get_current_weather_JNull get_forecast_JNull make_request_404)

theorem not_found_is_not_retried_witness:
  "0 < max_retries (default_config ''key'')
   \<and> (\<lambda>url params i. Http 404 None) (current_weather_url (default_config ''key''))
        (get_weather_params (default_config ''key'') ''Atlantis'' False) (0::nat) = Http 404 None
   \<and> (\<lambda>url params i. Http 404 None) (forecast_url (default_config ''key''))
        (get_weather_params (default_config ''key'') ''Atlantis'' True) (0::nat) = Http 404 None
   \<and> get_current_weather (default_config ''key'') (\<lambda>url params i. Http 404 None) ''Atlantis''
       = (Inr None, [Get 0])
   \<and> get_forecast (default_config ''key'') (\<lambda>url params i. Http 404 None)
        (\<lambda>t. \<lfloor>t / 86400\<rfloor>) ''Atlantis'' = (Inr None, [Get 0])"
  using not_found_is_not_retried [of "default_config ''key''" "\<lambda>url params i. Http 404 None"
      "''Atlantis''" None "\<lambda>t. \<lfloor>t / 86400\<rfloor>"]
  by (simp add: default_config_def)

text \<open>
  C9. With three attempts allowed, when the first two attempts end in a retryable
  outcome and the third is answered with status 200 and a JSON body, \<^verbatim>\<open>_make_request\<close>
  returns that body, after three attempts and two pauses.
\<close>

theorem third_attempt_succeeds:
  assumes "max_retries cfg = 3"
    and "transient (tr url params 0)"
    and "transient (tr url params 1)"
    and "tr url params 2 = Http 200 (Some body)"
  shows "make_request cfg tr url params = (body, [Get 0, Sleep 1, Get 1, Sleep 1, Get 2])"
proof -
  have "[0 ..< nat 3] = [0, 1, 2]"
    by (simp add: upt_rec)
  then show ?thesis
    using assms by (simp add: make_request_def transient_falls_through)
qed

theorem third_attempt_succeeds_witness:
  "max_retries (default_config ''key'') = 3
   \<and> transient ((\<lambda>url params i. if i = 0 then TimeoutError else if i = 1 then Http 503 None
                  else Http 200 (Some (JObj [(''name'', JStr ''Oslo'')]))) ''u'' [] 0)
   \<and> transient ((\<lambda>url params i. if i = 0 then TimeoutError else if i = 1 then Http 503 None
                  else Http 200 (Some (JObj [(''name'', JStr ''Oslo'')]))) ''u'' [] 1)
   \<and> make_request (default_config ''key'')
        (\<lambda>url params i. if i = 0 then TimeoutError else if i = 1 then Http 503 None
                  else Http 200 (Some (JObj [(''name'', JStr ''Oslo'')]))) ''u'' []
       = (JObj [(''name'', JStr ''Oslo'')], [Get 0, Sleep 1, Get 1, Sleep 1, Get 2])"
  using third_attempt_succeeds [of "default_config ''key''"
      "\<lambda>url params i. if i = 0 then TimeoutError else if i = 1 then Http 503 None
                  else Http 200 (Some (JObj [(''name'', JStr ''Oslo'')]))" "''u''" "[]"
      "JObj [(''name'', JStr ''Oslo'')]"]
  by (simp add: default_config_def)



section \<open>Grouping and finishing the days\<close>

lemma bind_r_Inr [simp]: "bind_r (Inr x) f = f x"
  by (simp add: bind_r_def)

lemma bind_r_Inl [simp]: "bind_r (Inl e) f = Inl e"
  by (simp add: bind_r_def)

lemma bind_r_eq_Inr: "bind_r m f = Inr y \<longleftrightarrow> (\<exists>x. m = Inr x \<and> f x = Inr y)"
  by (cases m) simp_all

lemma set_first_seen [simp]: "set (first_seen xs) = set xs"
  by (induction xs) auto

lemma distinct_first_seen [simp]: "distinct (first_seen xs)"
  by (induction xs) auto

lemma filter_first_seen: "filter P (first_seen xs) = first_seen (filter P xs)"
proof (induction xs)
  case Nil
  then show ?case by simp
next
  case (Cons x xs)
  have "filter P (filter (\<lambda>y. y \<noteq> x) (first_seen xs)) = filter (\<lambda>y. y \<noteq> x) (filter P (first_seen xs))"
    by (simp add: conj_commute)
  moreover have "\<not> P x \<Longrightarrow> filter (\<lambda>y. y \<noteq> x) (first_seen (filter P xs)) = first_seen (filter P xs)"
    by (rule filter_True) auto
  ultimately show ?case using Cons by simp
qed

lemma first_seen_snoc:
  "first_seen (xs @ [x]) = (if x \<in> set xs then first_seen xs else first_seen xs @ [x])"
  by (induction xs) auto

lemma update_map_notin:
  "k \<notin> set ks \<Longrightarrow> AList.update k v (map (\<lambda>e. (e, F e)) ks) = map (\<lambda>e. (e, F e)) ks @ [(k, v)]"
  by (induction ks) auto

lemma update_map_in:
  "k \<in> set ks \<Longrightarrow> distinct ks \<Longrightarrow>
   AList.update k v (map (\<lambda>e. (e, F e)) ks) = map (\<lambda>e. (e, if e = k then v else F e)) ks"
  by (induction ks) (auto simp: update_map_notin)

lemma map_of_map_key:
  "map_of (map (\<lambda>e. (e, F e)) ks) k = (if k \<in> set ks then Some (F k) else None)"
  by (induction ks) auto

lemma filter_key_nil: "k \<notin> set (map f xs) \<Longrightarrow> filter (\<lambda>x. f x = k) xs = []"
  by (induction xs) auto

lemma filter_key_ne: "k \<in> set (map f xs) \<Longrightarrow> filter (\<lambda>x. f x = k) xs \<noteq> []"
  by (induction xs) auto

lemma read_sampleD:
  assumes "read_sample item = Inr s"
  shows "bind_r (getitem item ''dt'') fromtimestamp = Inr (s_dt s)"
    and "item_temp item = Inr (s_temp s)"
    and "item_weather item ''main'' = Inr (s_main s)"
    and "item_weather item ''icon'' = Inr (s_icon s)"
    and "item_description item = Inr (s_description s)"
    and "item_humidity item = Inr (s_humidity s)"
    and "item_wind_speed item = Inr (s_wind_speed s)"
  using assms unfolding read_sample_def bind_r_eq_Inr by auto

lemma day_group_single:
  "day_group [s] = \<lparr> date = s_dt s, temp_min = s_temp s, temp_max = s_temp s,
      descriptions = [s_description s], humidity = [s_humidity s], wind_speeds = [s_wind_speed s],
      main_weather = s_main s, icon = s_icon s \<rparr>"
  by (simp add: day_group_def)

lemma day_group_snoc:
  assumes "g \<noteq> []"
  shows "day_group (g @ [s]) = (day_group g)
      \<lparr> temp_min := min (temp_min (day_group g)) (s_temp s),
        temp_max := max (temp_max (day_group g)) (s_temp s),
        descriptions := descriptions (day_group g) @ [s_description s],
        humidity := humidity (day_group g) @ [s_humidity s],
        wind_speeds := wind_speeds (day_group g) @ [s_wind_speed s] \<rparr>"
proof -
  have ne: "set (map s_temp g) \<noteq> {}" using assms by simp
  have "Min (insert (s_temp s) (set (map s_temp g))) = min (s_temp s) (Min (set (map s_temp g)))"
    using ne by (intro Min_insert) simp_all
  moreover have "Max (insert (s_temp s) (set (map s_temp g))) = max (s_temp s) (Max (set (map s_temp g)))"
    using ne by (intro Max_insert) simp_all
  ultimately show ?thesis
    using assms by (simp add: day_group_def min.commute max.commute)
qed

lemma update_append_new:
  "map_of al k = None \<Longrightarrow> AList.update k v (al @ [(k, v0)]) = al @ [(k, v)]"
  by (induction al) (auto split: if_splits)

lemma map_of_append_new: "map_of al k = None \<Longrightarrow> map_of (al @ [(k, v)]) k = Some v"
  by (simp add: map_add_def)

lemma add_item_new_day:
  assumes "read_sample item = Inr s" and "map_of daily (day_key (s_dt s)) = None"
  shows "add_item day_key daily item = Inr (daily @ [(day_key (s_dt s), day_group [s])])"
  using assms(2) read_sampleD [OF assms(1)]
  by (simp add: add_item_def Let_def map_of_append_new update_append_new day_group_single
           del: map_of_append)

lemma add_item_known_day:
  assumes "read_sample item = Inr s" and "map_of daily (day_key (s_dt s)) = Some forecast"
  shows "add_item day_key daily item =
     Inr (AList.update (day_key (s_dt s))
            (forecast
               \<lparr> temp_min := min (temp_min forecast) (s_temp s),
                 temp_max := max (temp_max forecast) (s_temp s),
                 descriptions := descriptions forecast @ [s_description s],
                 humidity := humidity forecast @ [s_humidity s],
                 wind_speeds := wind_speeds forecast @ [s_wind_speed s] \<rparr>)
            daily)"
  using assms(2) read_sampleD [OF assms(1)]
  by (simp add: add_item_def Let_def)

lemma add_item_grouped:
  assumes "read_sample item = Inr s"
  shows "add_item day_key (grouped day_key ss) item = Inr (grouped day_key (ss @ [s]))"
proof -
  let ?k = "day_key (s_dt s)"
  let ?ks = "map (\<lambda>s. day_key (s_dt s)) ss"
  let ?F = "\<lambda>k. day_group (filter (\<lambda>s. day_key (s_dt s) = k) ss)"
  define G where "G = (\<lambda>k. day_group (filter (\<lambda>x. day_key (s_dt x) = k) (ss @ [s])))"
  have other: "G k = ?F k" if "k \<noteq> ?k" for k
    using that by (simp add: G_def)
  have g: "grouped day_key (ss @ [s]) = map (\<lambda>k. (k, G k)) (first_seen (?ks @ [?k]))"
    by (simp add: grouped_def G_def)
  show ?thesis
  proof (cases "?k \<in> set ?ks")
    case False
    then have none: "map_of (grouped day_key ss) ?k = None"
      by (simp add: grouped_def map_of_map_key)
    have nil: "filter (\<lambda>s. day_key (s_dt s) = ?k) ss = []"
      using False by (rule filter_key_nil)
    have rest: "map (\<lambda>k. (k, G k)) (first_seen ?ks) = map (\<lambda>k. (k, ?F k)) (first_seen ?ks)"
    proof (rule map_cong [OF refl])
      fix k assume "k \<in> set (first_seen ?ks)"
      then have "k \<in> set ?ks" by (simp only: set_first_seen)
      then have "k \<noteq> ?k" using False by blast
      then show "(k, G k) = (k, ?F k)" by (simp add: other)
    qed
    have new: "G ?k = day_group [s]"
      by (simp add: G_def nil)
    have "grouped day_key (ss @ [s]) = map (\<lambda>k. (k, G k)) (first_seen ?ks @ [?k])"
      using False by (simp add: g first_seen_snoc)
    also have "\<dots> = map (\<lambda>k. (k, G k)) (first_seen ?ks) @ [(?k, G ?k)]"
      by simp
    also have "\<dots> = map (\<lambda>k. (k, ?F k)) (first_seen ?ks) @ [(?k, day_group [s])]"
      by (simp only: rest new)
    also have "\<dots> = grouped day_key ss @ [(?k, day_group [s])]"
      by (simp add: grouped_def)
    finally have "grouped day_key (ss @ [s]) = grouped day_key ss @ [(?k, day_group [s])]" .
    then show ?thesis
      using add_item_new_day [of item s "grouped day_key ss" day_key] assms none by simp
  next
    case True
    then have some: "map_of (grouped day_key ss) ?k = Some (?F ?k)"
      by (simp add: grouped_def map_of_map_key)
    have ne: "filter (\<lambda>s. day_key (s_dt s) = ?k) ss \<noteq> []"
      using True by (rule filter_key_ne)
    have Gk: "G ?k = day_group (filter (\<lambda>s. day_key (s_dt s) = ?k) ss @ [s])"
      by (simp add: G_def)
    have "grouped day_key (ss @ [s]) = map (\<lambda>k. (k, G k)) (first_seen ?ks)"
      using True by (simp add: g first_seen_snoc)
    also have "\<dots> = map (\<lambda>k. (k, if k = ?k then G ?k else ?F k)) (first_seen ?ks)"
      by (rule map_cong [OF refl]) (simp add: other)
    also have "\<dots> = AList.update ?k (G ?k) (map (\<lambda>k. (k, ?F k)) (first_seen ?ks))"
      using True by (simp add: update_map_in)
    also have "\<dots> = AList.update ?k (G ?k) (grouped day_key ss)"
      by (simp add: grouped_def)
    finally have "grouped day_key (ss @ [s]) = AList.update ?k (G ?k) (grouped day_key ss)" .
    then show ?thesis
      using add_item_known_day [of item s "grouped day_key ss" day_key] assms some
      by (simp add: Gk day_group_snoc [OF ne])
  qed
qed

lemma add_items_snoc:
  "add_items day_key daily (items @ [item]) =
     bind_r (add_items day_key daily items) (\<lambda>daily. add_item day_key daily item)"
proof (induction items arbitrary: daily)
  case Nil
  show ?case by (cases "add_item day_key daily item") simp_all
next
  case (Cons a items)
  then show ?case by (cases "add_item day_key daily a") simp_all
qed

lemma add_items_grouped:
  "map read_sample items = map Inr ss \<Longrightarrow> add_items day_key [] items = Inr (grouped day_key ss)"
proof (induction items arbitrary: ss rule: rev_induct)
  case Nil
  then show ?case by (simp add: grouped_def)
next
  case (snoc item items)
  from snoc.prems obtain ss' s where ss: "ss = ss' @ [s]"
    and items: "map read_sample items = map Inr ss'" and item: "read_sample item = Inr s"
    by (cases ss rule: rev_cases) auto
  show ?case
    by (simp add: add_items_snoc snoc.IH [OF items] add_item_grouped [OF item] ss)
qed

lemma py_round_bounds: "\<lfloor>x\<rfloor> \<le> py_round x \<and> py_round x \<le> \<lfloor>x\<rfloor> + 1"
  by (simp add: py_round_def Let_def)


lemma py_round_mono:
  assumes "x \<le> y"
  shows "py_round x \<le> py_round y"
proof (cases "\<lfloor>x\<rfloor> = \<lfloor>y\<rfloor>")
  case True
  have "x - of_int \<lfloor>y\<rfloor> \<le> y - of_int \<lfloor>y\<rfloor>"
    using assms by simp
  then show ?thesis
    using True by (simp add: py_round_def Let_def)
next
  case False
  have "\<lfloor>x\<rfloor> \<le> \<lfloor>y\<rfloor>"
    using assms by (rule floor_mono)
  then have "\<lfloor>x\<rfloor> + 1 \<le> \<lfloor>y\<rfloor>"
    using False by simp
  then show ?thesis
    using py_round_bounds [of x] py_round_bounds [of y] by linarith
qed


lemma count_descriptions_snoc:
  "count_descriptions counts (ds @ [d]) =
     AList.update d ((case map_of (count_descriptions counts ds) d of None \<Rightarrow> 0 | Some c \<Rightarrow> c) + 1)
       (count_descriptions counts ds)"
  by (induction ds arbitrary: counts) simp_all

lemma count_descriptions_counts:
  "count_descriptions [] ds = map (\<lambda>d. (d, int (count_list ds d))) (first_seen ds)"
proof (induction ds rule: rev_induct)
  case Nil
  show ?case by simp
next
  case (snoc d ds)
  let ?c = "\<lambda>e. int (count_list ds e)"
  let ?c' = "\<lambda>e. int (count_list (ds @ [d]) e)"
  show ?case
  proof (cases "d \<in> set ds")
    case True
    have "map (\<lambda>e. (e, ?c' e)) (first_seen ds)
          = map (\<lambda>e. (e, if e = d then ?c d + 1 else ?c e)) (first_seen ds)"
      by (rule map_cong [OF refl]) simp
    also have "\<dots> = AList.update d (?c d + 1) (map (\<lambda>e. (e, ?c e)) (first_seen ds))"
      using True by (simp add: update_map_in)
    finally show ?thesis
      using True by (simp add: count_descriptions_snoc snoc.IH map_of_map_key first_seen_snoc)
  next
    case False
    then have zero: "count_list ds d = 0"
      by (simp add: count_list_0_iff)
    have "map (\<lambda>e. (e, ?c' e)) (first_seen ds) = map (\<lambda>e. (e, ?c e)) (first_seen ds)"
    proof (rule map_cong [OF refl])
      fix e assume "e \<in> set (first_seen ds)"
      then have "e \<noteq> d" using False by auto
      then show "(e, ?c' e) = (e, ?c e)" by simp
    qed
    then have "map (\<lambda>e. (e, ?c' e)) (first_seen ds @ [d])
          = map (\<lambda>e. (e, ?c e)) (first_seen ds) @ [(d, 1)]"
      by (simp add: zero)
    then show ?thesis
      using False by (simp add: count_descriptions_snoc snoc.IH map_of_map_key first_seen_snoc update_map_notin)
  qed
qed

lemma max_from_split:
  "\<exists>pre post. b # xs = pre @ max_from key b xs # post
     \<and> (\<forall>x \<in> set pre. key x < key (max_from key b xs))
     \<and> (\<forall>x \<in> set post. key x \<le> key (max_from key b xs))"
proof (induction xs arbitrary: b)
  case Nil
  show ?case
    by (rule exI [of _ "[]"], rule exI [of _ "[]"]) simp
next
  case (Cons x xs)
  show ?case
  proof (cases "key b < key x")
    case True
    then have m: "max_from key b (x # xs) = max_from key x xs"
      by simp
    from Cons [of x] obtain pre post where s: "x # xs = pre @ max_from key x xs # post"
      and lt: "\<forall>y \<in> set pre. key y < key (max_from key x xs)"
      and le: "\<forall>y \<in> set post. key y \<le> key (max_from key x xs)"
      by blast
    have "x \<in> set (pre @ max_from key x xs # post)"
      using s by (metis list.set_intros(1))
    then have "key x \<le> key (max_from key x xs)"
      using lt le by auto
    then have "key b < key (max_from key x xs)"
      using True by simp
    then show ?thesis
      unfolding m using s lt le
      by (intro exI [of _ "b # pre"] exI [of _ post]) simp
  next
    case False
    then have m: "max_from key b (x # xs) = max_from key b xs"
      by simp
    from Cons [of b] obtain pre post where s: "b # xs = pre @ max_from key b xs # post"
      and lt: "\<forall>y \<in> set pre. key y < key (max_from key b xs)"
      and le: "\<forall>y \<in> set post. key y \<le> key (max_from key b xs)"
      by blast
    show ?thesis
    proof (cases pre)
      case Nil
      then have mb: "max_from key b xs = b" and "post = xs"
        using s by auto
      then have "\<forall>y \<in> set xs. key y \<le> key b"
        using le by simp
      then show ?thesis
        unfolding m mb using False
        by (intro exI [of _ "[]"] exI [of _ "x # xs"]) simp
    next
      case (Cons p pre')
      then have p: "p = b" and xs: "xs = pre' @ max_from key b xs # post"
        using s by auto
      have "key b < key (max_from key b xs)"
        using lt Cons p by simp
      then have "key x < key (max_from key b xs)"
        using False by simp
      moreover have "b # x # xs = (b # x # pre') @ max_from key b xs # post"
        using xs by simp
      ultimately show ?thesis
        unfolding m using lt le Cons p
        by (intro exI [of _ "b # x # pre'"] exI [of _ post]) simp
    qed
  qed
qed

lemma takeWhile_filter_other:
  "Q d \<Longrightarrow> takeWhile (\<lambda>y. y \<noteq> d) (filter Q l) = filter Q (takeWhile (\<lambda>y. y \<noteq> d) l)"
  by (induction l) auto

lemma takeWhile_first_seen:
  "takeWhile (\<lambda>y. y \<noteq> d) (first_seen ds) = first_seen (takeWhile (\<lambda>y. y \<noteq> d) ds)"
  by (induction ds) (auto simp: takeWhile_filter_other)

lemma takeWhile_upto_first:
  "d \<notin> set pre \<Longrightarrow> takeWhile (\<lambda>y. y \<noteq> d) (pre @ d # post) = pre"
  by (induction pre) auto

lemma most_frequent_first_mode:
  assumes "ds \<noteq> []"
  shows "\<exists>d \<in> set ds. most_frequent ds = Inr (title d)
           \<and> (\<forall>e \<in> set ds. count_list ds e \<le> count_list ds d)
           \<and> (\<forall>e \<in> set (takeWhile (\<lambda>x. x \<noteq> d) ds). count_list ds e < count_list ds d)"
proof -
  let ?h = "\<lambda>d. (d, int (count_list ds d))"
  obtain k ks where ks: "first_seen ds = k # ks"
    using assms by (cases ds) auto
  let ?best = "max_from snd (?h k) (map ?h ks)"
  have counts: "count_descriptions [] ds = ?h k # map ?h ks"
    by (simp add: count_descriptions_counts ks)
  then have mf: "most_frequent ds = Inr (title (fst ?best))"
    by (simp add: most_frequent_def py_max_def)
  obtain pre post where split: "?h k # map ?h ks = pre @ ?best # post"
    and lt: "\<forall>x \<in> set pre. snd x < snd ?best"
    and le: "\<forall>x \<in> set post. snd x \<le> snd ?best"
    using max_from_split [of "?h k" "map ?h ks" snd] by blast
  have "map ?h (first_seen ds) = pre @ ?best # post"
    using split ks by simp
  then obtain kpre d kpost where fs: "first_seen ds = kpre @ d # kpost"
    and pre: "pre = map ?h kpre" and best: "?best = ?h d" and post: "post = map ?h kpost"
    by (auto simp: map_eq_append_conv map_eq_Cons_conv)
  have d: "d \<in> set ds"
    using fs by (metis in_set_conv_decomp set_first_seen)
  have dist: "distinct (kpre @ d # kpost)"
    using fs by (metis distinct_first_seen)
  have lt': "\<forall>e \<in> set kpre. count_list ds e < count_list ds d"
    using lt pre best by simp
  have le': "\<forall>e \<in> set kpost. count_list ds e \<le> count_list ds d"
    using le post best by simp
  have "set ds = set kpre \<union> {d} \<union> set kpost"
    using fs by (metis Un_insert_right list.simps(15) set_append set_first_seen sup_bot.right_neutral Un_assoc insert_is_Un)
  then have all: "\<forall>e \<in> set ds. count_list ds e \<le> count_list ds d"
    using lt' le' by auto
  have "takeWhile (\<lambda>y. y \<noteq> d) (kpre @ d # kpost) = kpre"
    using dist by (simp add: takeWhile_upto_first)
  then have "first_seen (takeWhile (\<lambda>y. y \<noteq> d) ds) = kpre"
    using fs by (simp add: takeWhile_first_seen [symmetric])
  then have "set (takeWhile (\<lambda>y. y \<noteq> d) ds) = set kpre"
    by (metis set_first_seen)
  then have before: "\<forall>e \<in> set (takeWhile (\<lambda>x. x \<noteq> d) ds). count_list ds e < count_list ds d"
    using lt' by simp
  show ?thesis
    using d mf best all before by auto
qed

lemma finalize_day_group:
  assumes "g \<noteq> []"
  shows "finalize (day_group g) = Inr (summary g)"
proof -
  obtain d where "most_frequent (map s_description g) = Inr d"
    using most_frequent_first_mode [of "map s_description g"] assms by auto
  then show ?thesis
    using assms by (simp add: finalize_def day_group_def summary_def py_mean_def)
qed

lemma finalize_all_map:
  "\<forall>k \<in> set ks. finalize (F k) = Inr (G k) \<Longrightarrow>
   finalize_all (map (\<lambda>k. (k, F k)) ks) = Inr (map (\<lambda>k. (k, G k)) ks)"
  by (induction ks) simp_all

lemma finalize_all_grouped:
  "finalize_all (grouped day_key ss) =
     Inr (map (\<lambda>k. (k, summary (filter (\<lambda>s. day_key (s_dt s) = k) ss)))
            (first_seen (map (\<lambda>s. day_key (s_dt s)) ss)))"
  unfolding grouped_def
proof (rule finalize_all_map, rule ballI)
  fix k assume "k \<in> set (first_seen (map (\<lambda>s. day_key (s_dt s)) ss))"
  then have "k \<in> set (map (\<lambda>s. day_key (s_dt s)) ss)"
    by (simp only: set_first_seen)
  then have "filter (\<lambda>s. day_key (s_dt s) = k) ss \<noteq> []"
    by (rule filter_key_ne)
  then show "finalize (day_group (filter (\<lambda>s. day_key (s_dt s) = k) ss))
      = Inr (summary (filter (\<lambda>s. day_key (s_dt s) = k) ss))"
    by (rule finalize_day_group)
qed

lemma forecast_body_closed_form:
  assumes "forecast_payload data name country items" and "map read_sample items = map Inr ss"
  shows "forecast_body day_key data =
     Inr \<lparr> fr_city = name, fr_country = country,
           forecasts = take 5 (map (\<lambda>k. summary (filter (\<lambda>s. day_key (s_dt s) = k) ss))
                                 (first_seen (map (\<lambda>s. day_key (s_dt s)) ss))) \<rparr>"
proof -
  from assms(1) obtain city_info where "getitem data ''city'' = Inr city_info"
    and "getitem city_info ''name'' = Inr name" and "getitem city_info ''country'' = Inr country"
    and "getitem data ''list'' = Inr (JArr items)"
    unfolding forecast_payload_def bind_r_eq_Inr by auto
  then show ?thesis
    by (simp add: forecast_body_def add_items_grouped [OF assms(2)] finalize_all_grouped comp_def)
qed

lemma format_forecast_data_closed_form:
  assumes "forecast_payload data name country items" and "map read_sample items = map Inr ss"
  shows "format_forecast_data day_key data =
     Inr (Dict \<lparr> fr_city = name, fr_country = country,
           forecasts = take 5 (map (\<lambda>k. summary (filter (\<lambda>s. day_key (s_dt s) = k) ss))
                                 (first_seen (map (\<lambda>s. day_key (s_dt s)) ss))) \<rparr>)"
  by (simp add: format_forecast_data_def except_KeyError_def forecast_body_closed_form [OF assms])

lemma update_preserves:
  "\<forall>(k, f) \<in> set al. P f \<Longrightarrow> P v \<Longrightarrow> \<forall>(k, f) \<in> set (AList.update k' v al). P f"
  by (induction al) auto

lemma add_item_keeps_order:
  assumes "add_item day_key daily item = Inr daily'"
    and "\<forall>(k, f) \<in> set daily. temp_min f \<le> temp_max f"
  shows "\<forall>(k, f) \<in> set daily'. temp_min f \<le> temp_max f"
proof -
  from assms(1) obtain date_obj daily1 forecast temp desc hum wind where
    daily1: "(if map_of daily (day_key date_obj) = None
        then
          bind_r (item_temp item) (\<lambda>temp.
          bind_r (item_weather item ''main'') (\<lambda>main.
          bind_r (item_weather item ''icon'') (\<lambda>icon.
          Inr (daily @ [(day_key date_obj,
                 \<lparr> date = date_obj, temp_min = temp, temp_max = temp, descriptions = [],
                   humidity = [], wind_speeds = [], main_weather = main, icon = icon \<rparr>)]))))
        else Inr daily) = Inr daily1"
    and look: "map_of daily1 (day_key date_obj) = Some forecast"
    and daily': "daily' = AList.update (day_key date_obj)
                (forecast
                   \<lparr> temp_min := min (temp_min forecast) temp,
                     temp_max := max (temp_max forecast) temp,
                     descriptions := descriptions forecast @ [desc],
                     humidity := humidity forecast @ [hum],
                     wind_speeds := wind_speeds forecast @ [wind] \<rparr>)
                daily1"
    unfolding add_item_def Let_def by (auto simp: bind_r_eq_Inr split: option.splits)
  have inv1: "\<forall>(k, f) \<in> set daily1. temp_min f \<le> temp_max f"
  proof (cases "map_of daily (day_key date_obj) = None")
    case True
    then show ?thesis
      using daily1 assms(2) by (auto simp: bind_r_eq_Inr)
  next
    case False
    then have "daily1 = daily"
      using daily1 by (simp split: if_splits)
    then show ?thesis
      using assms(2) by simp
  qed
  have "(day_key date_obj, forecast) \<in> set daily1"
    using look by (rule map_of_SomeD)
  then have "temp_min forecast \<le> temp_max forecast"
    using inv1 by auto
  then have "min (temp_min forecast) temp \<le> max (temp_max forecast) temp"
    by (simp add: min_le_iff_disj le_max_iff_disj)
  then show ?thesis
    unfolding daily'
    by (intro update_preserves [where P = "\<lambda>f. temp_min f \<le> temp_max f"] inv1) simp
qed

lemma add_items_keep_order:
  "add_items day_key daily items = Inr daily' \<Longrightarrow>
   \<forall>(k, f) \<in> set daily. temp_min f \<le> temp_max f \<Longrightarrow>
   \<forall>(k, f) \<in> set daily'. temp_min f \<le> temp_max f"
proof (induction items arbitrary: daily)
  case Nil
  then show ?case by simp
next
  case (Cons item items)
  from Cons.prems(1) obtain daily1 where a: "add_item day_key daily item = Inr daily1"
    and b: "add_items day_key daily1 items = Inr daily'"
    by (auto simp: bind_r_eq_Inr)
  show ?case
    using Cons.IH [OF b] add_item_keeps_order [OF a Cons.prems(2)] by simp
qed

lemma finalize_keeps_order:
  assumes "finalize forecast = Inr forecast'" and "temp_min forecast \<le> temp_max forecast"
  shows "temp_min forecast' \<le> temp_max forecast'"
  using assms unfolding finalize_def
  by (auto simp: bind_r_eq_Inr py_round_mono)

lemma finalize_all_keeps_order:
  "finalize_all daily = Inr daily' \<Longrightarrow>
   \<forall>(k, f) \<in> set daily. temp_min f \<le> temp_max f \<Longrightarrow>
   \<forall>(k, f) \<in> set daily'. temp_min f \<le> temp_max f"
proof (induction daily arbitrary: daily')
  case Nil
  then show ?case by simp
next
  case (Cons p daily)
  obtain k f where p: "p = (k, f)" by (cases p)
  from Cons.prems(1) obtain f' rest' where f': "finalize f = Inr f'"
    and rest': "finalize_all daily = Inr rest'" and d: "daily' = (k, f') # rest'"
    unfolding p by (auto simp: bind_r_eq_Inr)
  have "temp_min f' \<le> temp_max f'"
    using finalize_keeps_order [OF f'] Cons.prems(2) p by simp
  moreover have "\<forall>(k, f) \<in> set rest'. temp_min f \<le> temp_max f"
    using Cons.IH [OF rest'] Cons.prems(2) by simp
  ultimately show ?case
    by (simp add: d)
qed

lemma forecast_body_keeps_order:
  assumes "forecast_body day_key data = Inr r" and "f \<in> set (forecasts r)"
  shows "temp_min f \<le> temp_max f"
proof -
  from assms(1) obtain items daily daily' where a: "add_items day_key [] items = Inr daily"
    and b: "finalize_all daily = Inr daily'" and r: "forecasts r = take 5 (map snd daily')"
    unfolding forecast_body_def by (auto simp: bind_r_eq_Inr)
  have "\<forall>(k, f) \<in> set daily'. temp_min f \<le> temp_max f"
    using finalize_all_keeps_order [OF b] add_items_keep_order [OF a] by simp
  moreover have "f \<in> set (map snd daily')"
    using assms(2) r by (auto dest: in_set_takeD)
  ultimately show ?thesis by auto
qed

lemma except_KeyError_Dict: "except_KeyError m = Inr (Dict r) \<longleftrightarrow> m = Inr r"
  by (cases m) (auto simp: except_KeyError_def)

section \<open>The forecast of a payload\<close>

lemma example_formatted:
  "format_forecast_data utc_day (example_payload example_items) = Inr (Dict example_result)"
  by code_simp
















text \<open>
  C7. In every summary that \<^verbatim>\<open>_format_forecast_data\<close> returns, for any payload,
  \<open>temp_min \<le> temp_max\<close> holds after both were rounded.
\<close>

theorem temp_min_le_temp_max:
  assumes "format_forecast_data day_key data = Inr (Dict r)" and "f \<in> set (forecasts r)"
  shows "temp_min f \<le> temp_max f"
  using assms forecast_body_keeps_order [of day_key data r f]
  by (simp add: format_forecast_data_def except_KeyError_Dict)

theorem temp_min_le_temp_max_witness:
  "format_forecast_data utc_day (example_payload example_items) = Inr (Dict example_result)
   \<and> example_day0 \<in> set (forecasts example_result)
   \<and> temp_min example_day0 \<le> temp_max example_day0"
proof -
  have m: "example_day0 \<in> set (forecasts example_result)"
    by (simp add: example_result_def)
  show ?thesis
    using temp_min_le_temp_max [OF example_formatted m] example_formatted m by simp
qed

text \<open>
  C6, as stated, fails: for a payload with an empty sample list and the city present the
  result is not the failure result \<^verbatim>\<open>{}\<close> but a dict with the city, the country and an
  empty list of forecasts.
\<close>

theorem empty_list_is_not_a_failure:
  "format_forecast_data utc_day (example_payload [])
     = Inr (Dict \<lparr> fr_city = JStr ''Oslo'', fr_country = JStr ''NO'', forecasts = [] \<rparr>)
   \<and> format_forecast_data utc_day (example_payload []) \<noteq> Inr EmptyDict"
proof -
  have "format_forecast_data utc_day (example_payload [])
     = Inr (Dict \<lparr> fr_city = JStr ''Oslo'', fr_country = JStr ''NO'', forecasts = [] \<rparr>)"
    by code_simp
  then show ?thesis by simp
qed

text \<open>
  C6, amended. A payload whose sample list is empty and which carries the name and the
  country of the city gives the dict with that name, that country and no summaries; and
  whatever else the payload holds, a dict returned for an empty sample list has no
  summaries.
\<close>

theorem empty_list_gives_no_summaries:
  "(forecast_payload data name country []
      \<longrightarrow> format_forecast_data day_key data
            = Inr (Dict \<lparr> fr_city = name, fr_country = country, forecasts = [] \<rparr>))
   \<and> (getitem data ''list'' = Inr (JArr []) \<and> format_forecast_data day_key data = Inr (Dict r)
      \<longrightarrow> forecasts r = [])"
proof (intro conjI impI)
  assume "forecast_payload data name country []"
  then show "format_forecast_data day_key data
            = Inr (Dict \<lparr> fr_city = name, fr_country = country, forecasts = [] \<rparr>)"
    using format_forecast_data_closed_form [of data name country "[]" "[]" day_key] by simp
next
  assume a: "getitem data ''list'' = Inr (JArr []) \<and> format_forecast_data day_key data = Inr (Dict r)"
  then have "forecast_body day_key data = Inr r"
    by (simp add: format_forecast_data_def except_KeyError_Dict)
  then show "forecasts r = []"
    using a unfolding forecast_body_def by (auto simp: bind_r_eq_Inr)
qed

theorem empty_list_gives_no_summaries_witness:
  "forecast_payload (example_payload []) (JStr ''Oslo'') (JStr ''NO'') []
   \<and> getitem (example_payload []) ''list'' = Inr (JArr [])
   \<and> format_forecast_data utc_day (example_payload [])
       = Inr (Dict \<lparr> fr_city = JStr ''Oslo'', fr_country = JStr ''NO'', forecasts = [] \<rparr>)"
proof -
  have p: "forecast_payload (example_payload []) (JStr ''Oslo'') (JStr ''NO'') []"
    by (simp add: forecast_payload_def example_payload_def)
  have l: "getitem (example_payload []) ''list'' = Inr (JArr [])"
    by (simp add: example_payload_def)
  show ?thesis
    using empty_list_gives_no_summaries [of "example_payload []" "JStr ''Oslo''" "JStr ''NO''" utc_day] p l
    by simp
qed

section \<open>The current weather of a body\<close>





















end
